theory Spec2Isabelle
  imports Complex_Main "HOL-Library.Code_Target_Numeral"
begin

section \<open>JavaScript strings, numbers and the conversions the code calls\<close>

text \<open>
  A string that the code takes apart (an identifier token, the year typed into the form)
  is the list of its UTF-16 code units, as \<open>s[0]\<close>, \<open>Number\<close> and \<open>parseInt\<close> see it; \<open>js\<close>
  writes such a string from an ASCII literal. Strings that the code only stores, compares
  with a constant or tests for emptiness (titles, authors, messages, the method) are
  plain \<open>string\<close>s.
\<close>

type_synonym js_string = "nat list"

definition js :: "string \<Rightarrow> js_string" where
  "js s = map of_char s"

text \<open>
  A JavaScript number is \<open>NaN\<close>, an infinity or a finite double, kept as the rational it
  denotes (the two zeros are one value, both falsy).
\<close>

datatype jsnum = NaN | PosInfinity | NegInfinity | Fin rat

definition truthy_num :: "jsnum \<Rightarrow> bool" where
  "truthy_num n = (case n of NaN \<Rightarrow> False | Fin q \<Rightarrow> q \<noteq> 0 | _ \<Rightarrow> True)"

definition negate :: "jsnum \<Rightarrow> jsnum" where
  "negate n = (case n of NaN \<Rightarrow> NaN | PosInfinity \<Rightarrow> NegInfinity
                 | NegInfinity \<Rightarrow> PosInfinity | Fin q \<Rightarrow> Fin (- q))"

subsection \<open>Rounding a mathematical value to a double\<close>

text \<open>
  The number value of a mathematical value: the nearest double, a tie going to the one
  with the even mantissa, and an infinity from \<open>2 ^ 1024\<close> on. A double has 53 bits of
  mantissa and a binary exponent from -1022 (shared by the subnormals) to 1023.
\<close>

fun bit_length :: "nat \<Rightarrow> nat" where
  "bit_length n = (if n = 0 then 0 else Suc (bit_length (n div 2)))"

declare bit_length.simps [simp del]

definition pow2 :: "int \<Rightarrow> rat" where
  "pow2 k = (if 0 \<le> k then 2 ^ nat k else 1 / 2 ^ nat (- k))"

text \<open>For \<open>0 < q\<close>, the \<open>e\<close> with \<open>2 ^ e \<le> q < 2 ^ (e + 1)\<close>.\<close>

definition binary_exponent :: "rat \<Rightarrow> int" where
  "binary_exponent q =
     (if 1 \<le> q then int (bit_length (nat \<lfloor>q\<rfloor>)) - 1
      else - int (bit_length (nat (\<lceil>1 / q\<rceil> - 1))))"

definition round_half_even :: "rat \<Rightarrow> int" where
  "round_half_even x =
     (let f = \<lfloor>x\<rfloor>; r = x - of_int f
      in if r < 1 / 2 then f
         else if 1 / 2 < r then f + 1
         else if even f then f else f + 1)"

text \<open>The binary exponent of the doubles around \<open>a\<close>, for \<open>0 \<le> a\<close>: that of \<open>a\<close> itself,
  kept within the exponents a double has.\<close>

definition double_exponent :: "rat \<Rightarrow> int" where
  "double_exponent a =
     (if a < pow2 (- 1022) then - 1022
      else if 2 ^ 1024 \<le> a then 1023
      else binary_exponent a)"

definition round_double :: "rat \<Rightarrow> jsnum" where
  "round_double q =
     (let a = \<bar>q\<bar>;
          ulp = pow2 (double_exponent a - 52);
          r = of_int (round_half_even (a / ulp)) * ulp
      in if 2 ^ 1024 \<le> r then (if q < 0 then NegInfinity else PosInfinity)
         else Fin (if q < 0 then - r else r))"

definition round_num :: "jsnum \<Rightarrow> jsnum" where
  "round_num n = (case n of Fin q \<Rightarrow> round_double q | _ \<Rightarrow> n)"

subsection \<open>\<open>Number\<close> and \<open>parseInt\<close> on a string\<close>

text \<open>\<open>StrWhiteSpaceChar\<close>: the white space and the line terminators of the language.\<close>

definition isWhiteSpace :: "nat \<Rightarrow> bool" where
  "isWhiteSpace c =
     ((9 \<le> c \<and> c \<le> 13) \<or> c = 32 \<or> c = 160 \<or> c = 5760 \<or> (8192 \<le> c \<and> c \<le> 8202)
      \<or> c = 8232 \<or> c = 8233 \<or> c = 8239 \<or> c = 8287 \<or> c = 12288 \<or> c = 65279)"

definition trim :: "js_string \<Rightarrow> js_string" where
  "trim s = rev (dropWhile isWhiteSpace (rev (dropWhile isWhiteSpace s)))"

definition digit_of :: "nat \<Rightarrow> nat option" where
  "digit_of c =
     (if 48 \<le> c \<and> c \<le> 57 then Some (c - 48)
      else if 97 \<le> c \<and> c \<le> 102 then Some (c - 87)
      else if 65 \<le> c \<and> c \<le> 70 then Some (c - 55)
      else None)"

definition is_digit_in :: "nat \<Rightarrow> nat \<Rightarrow> bool" where
  "is_digit_in radix c = (case digit_of c of None \<Rightarrow> False | Some v \<Rightarrow> v < radix)"

definition digits_value :: "nat \<Rightarrow> js_string \<Rightarrow> nat" where
  "digits_value radix s =
     foldl (\<lambda>acc c. acc * radix + (case digit_of c of None \<Rightarrow> 0 | Some v \<Rightarrow> v)) 0 s"

definition all_digits :: "nat \<Rightarrow> js_string \<Rightarrow> bool" where
  "all_digits radix s = (s \<noteq> [] \<and> list_all (is_digit_in radix) s)"

text \<open>\<open>ExponentPart\<close>, optional: \<open>e\<close> or \<open>E\<close>, an optional sign, at least one digit.\<close>

definition exponent_part :: "js_string \<Rightarrow> int option" where
  "exponent_part s =
     (case s of
        [] \<Rightarrow> Some 0
      | c # r \<Rightarrow>
          if c = of_char CHR ''e'' \<or> c = of_char CHR ''E'' then
            (case r of
               [] \<Rightarrow> None
             | d # r' \<Rightarrow>
                 if d = of_char CHR ''-'' then
                   (if all_digits 10 r' then Some (- int (digits_value 10 r')) else None)
                 else if d = of_char CHR ''+'' then
                   (if all_digits 10 r' then Some (int (digits_value 10 r')) else None)
                 else (if all_digits 10 r then Some (int (digits_value 10 r)) else None))
          else None)"

definition scale10 :: "rat \<Rightarrow> int \<Rightarrow> rat" where
  "scale10 m e = (if 0 \<le> e then m * 10 ^ nat e else m / 10 ^ nat (- e))"

text \<open>\<open>StrUnsignedDecimalLiteral\<close>: \<open>Infinity\<close>, or digits with an optional fraction and
  exponent, at least one digit before or after the point. The value is the exact one; it
  is rounded once, in \<open>Number_js\<close>.\<close>

definition str_unsigned_decimal :: "js_string \<Rightarrow> jsnum" where
  "str_unsigned_decimal s =
     (if s = js ''Infinity'' then PosInfinity
      else
        let ip = takeWhile (is_digit_in 10) s;
            r1 = dropWhile (is_digit_in 10) s;
            has_dot = (case r1 of [] \<Rightarrow> False | c # _ \<Rightarrow> c = of_char CHR ''.'');
            r2 = (if has_dot then tl r1 else r1);
            fp = (if has_dot then takeWhile (is_digit_in 10) r2 else []);
            r3 = (if has_dot then dropWhile (is_digit_in 10) r2 else r2);
            mant = (of_nat (digits_value 10 ip) :: rat)
                   + of_nat (digits_value 10 fp) / 10 ^ length fp
        in if ip = [] \<and> fp = [] then NaN
           else (case exponent_part r3 of None \<Rightarrow> NaN | Some e \<Rightarrow> Fin (scale10 mant e)))"

definition str_decimal_literal :: "js_string \<Rightarrow> jsnum" where
  "str_decimal_literal s =
     (case s of
        [] \<Rightarrow> NaN
      | c # r \<Rightarrow>
          if c = of_char CHR ''+'' then str_unsigned_decimal r
          else if c = of_char CHR ''-'' then negate (str_unsigned_decimal r)
          else str_unsigned_decimal s)"

text \<open>\<open>NonDecimalIntegerLiteral\<close>: \<open>0x\<close>, \<open>0o\<close>, \<open>0b\<close> (either case) and digits of that
  radix, unsigned. \<open>None\<close> when the string has no such prefix.\<close>

definition non_decimal_literal :: "js_string \<Rightarrow> jsnum option" where
  "non_decimal_literal s =
     (case s of
        c0 # c1 # ds \<Rightarrow>
          (let radix = (if c1 = of_char CHR ''x'' \<or> c1 = of_char CHR ''X'' then 16
                        else if c1 = of_char CHR ''o'' \<or> c1 = of_char CHR ''O'' then 8
                        else if c1 = of_char CHR ''b'' \<or> c1 = of_char CHR ''B'' then 2
                        else (0::nat))
           in if c0 = of_char CHR ''0'' \<and> radix \<noteq> 0
              then Some (if all_digits radix ds then Fin (of_nat (digits_value radix ds))
                         else NaN)
              else None)
      | _ \<Rightarrow> None)"

text \<open>\<open>Number(string)\<close>: the string trimmed, the empty string is 0, anything outside the
  numeric grammar is \<open>NaN\<close>, and the literal's value rounded to a double.\<close>

definition Number_js :: "js_string \<Rightarrow> jsnum" where
  "Number_js s =
     (let t = trim s in
      if t = [] then Fin 0
      else round_num (case non_decimal_literal t of
                        Some v \<Rightarrow> v
                      | None \<Rightarrow> str_decimal_literal t))"

text \<open>\<open>parseInt(string)\<close> with no radix: leading white space dropped, an optional sign,
  radix 16 after \<open>0x\<close> and 10 otherwise, the longest prefix of digits; \<open>NaN\<close> when that
  prefix is empty, otherwise the signed integer rounded to a double.\<close>

definition parseInt :: "js_string \<Rightarrow> jsnum" where
  "parseInt s =
     (let t = dropWhile isWhiteSpace s;
          neg = (case t of [] \<Rightarrow> False | c # _ \<Rightarrow> c = of_char CHR ''-'');
          t1 = (case t of [] \<Rightarrow> []
                | c # r \<Rightarrow> if c = of_char CHR ''+'' \<or> c = of_char CHR ''-'' then r else t);
          hex = (case t1 of c0 # c1 # _ \<Rightarrow>
                   c0 = of_char CHR ''0'' \<and> (c1 = of_char CHR ''x'' \<or> c1 = of_char CHR ''X'')
                 | _ \<Rightarrow> False);
          radix = (if hex then 16 else 10);
          ds = takeWhile (is_digit_in radix) (if hex then drop 2 t1 else t1)
      in if ds = [] then NaN
         else round_double ((if neg then - 1 else 1) * of_nat (digits_value radix ds)))"

section \<open>The store: one table of books behind a connection\<close>

text \<open>
  \<open>interface Book\<close> of \<open>pages/api/hello.ts\<close>. The field \<open>id\<close> is \<open>book_id\<close> here
  (\<open>id\<close> is the identity function of HOL).
\<close>

record book =
  book_id :: int
  title :: string
  author :: string
  year :: rat

text \<open>
  The database file as the code sees it through the connection \<open>db\<close> of the SQLite
  library: the table \<open>books\<close> (absent until \<open>CREATE TABLE\<close> has run), the \<open>AUTOINCREMENT\<close>
  counter of the table, and the condition of the file itself: \<open>fault = Some m\<close> stands for
  a file that cannot be used (locked, unreadable, corrupt), on which every statement
  throws an error with message \<open>m\<close>. The definitions below give the SQL statements of
  \<open>hello.ts\<close> their meaning on this state, one definition for each statement.
\<close>

record db =
  fault :: "string option"
  books_table :: "book list option"
  seq :: int

datatype exn = SqliteError string

datatype stmt =
    Select_all
  | Select_by_id jsnum
  | Update_books string string rat jsnum
  | Delete_books jsnum

text \<open>Preparing a statement on \<open>books\<close>: throws on a faulty file or a missing table,
  otherwise the statement runs on the rows.\<close>

definition prepare :: "db \<Rightarrow> exn + book list" where
  "prepare d =
     (case fault d of
        Some m \<Rightarrow> Inl (SqliteError m)
      | None \<Rightarrow>
          (case books_table d of
             None \<Rightarrow> Inl (SqliteError ''no such table: books'')
           | Some rows \<Rightarrow> Inr rows))"

text \<open>\<open>WHERE id = ?\<close> with a number bound: the integer key equals the bound value.\<close>

definition id_matches :: "jsnum \<Rightarrow> book \<Rightarrow> bool" where
  "id_matches n b = (case n of Fin q \<Rightarrow> of_int (book_id b) = q | _ \<Rightarrow> False)"

definition select_all :: "db \<Rightarrow> exn + book list" where
  "select_all d = prepare d"

definition select_by_id :: "db \<Rightarrow> jsnum \<Rightarrow> exn + book option" where
  "select_by_id d n =
     (case prepare d of Inl e \<Rightarrow> Inl e | Inr rows \<Rightarrow> Inr (find (id_matches n) rows))"

text \<open>\<open>UPDATE\<close> and \<open>DELETE\<close> return \<open>changes\<close>, the number of rows the statement touched,
  and the database after it.\<close>

definition update_books :: "db \<Rightarrow> string \<Rightarrow> string \<Rightarrow> rat \<Rightarrow> jsnum \<Rightarrow> exn + nat \<times> db" where
  "update_books d t a y n =
     (case prepare d of
        Inl e \<Rightarrow> Inl e
      | Inr rows \<Rightarrow>
          Inr (length (filter (id_matches n) rows),
               d\<lparr>books_table :=
                    Some (map (\<lambda>b. if id_matches n b
                                    then b\<lparr>title := t, author := a, year := y\<rparr> else b) rows)\<rparr>))"

definition delete_books :: "db \<Rightarrow> jsnum \<Rightarrow> exn + nat \<times> db" where
  "delete_books d n =
     (case prepare d of
        Inl e \<Rightarrow> Inl e
      | Inr rows \<Rightarrow>
          Inr (length (filter (id_matches n) rows),
               d\<lparr>books_table := Some (filter (\<lambda>b. \<not> id_matches n b) rows)\<rparr>))"

definition count_books :: "db \<Rightarrow> exn + nat" where
  "count_books d = (case prepare d of Inl e \<Rightarrow> Inl e | Inr rows \<Rightarrow> Inr (length rows))"

text \<open>\<open>INSERT\<close> into a table whose key is \<open>AUTOINCREMENT\<close>: the new key is one more than
  the largest key the table has ever held. Keys are 64-bit integers; once the largest
  one has been used the statement throws.\<close>

definition insert_book :: "db \<Rightarrow> string \<Rightarrow> string \<Rightarrow> rat \<Rightarrow> exn + db" where
  "insert_book d t a y =
     (case prepare d of
        Inl e \<Rightarrow> Inl e
      | Inr rows \<Rightarrow>
          (let m = fold max (map book_id rows) (seq d)
           in if 9223372036854775807 \<le> m then Inl (SqliteError ''database or disk is full'')
              else Inr (d\<lparr>books_table :=
                             Some (rows @ [\<lparr>book_id = m + 1, title = t, author = a, year = y\<rparr>]),
                           seq := m + 1\<rparr>)))"

subsection \<open>Module initialisation: schema and seed\<close>

definition create_table_if_not_exists :: "db \<Rightarrow> exn + db" where
  "create_table_if_not_exists d =
     (case fault d of
        Some m \<Rightarrow> Inl (SqliteError m)
      | None \<Rightarrow>
          (case books_table d of
             None \<Rightarrow> Inr (d\<lparr>books_table := Some []\<rparr>)
           | Some rows \<Rightarrow> Inr d))"

definition fakeBooks :: "(string \<times> string \<times> rat) list" where
  "fakeBooks =
     [(''The Great Gatsby'', ''F. Scott Fitzgerald'', 1925),
      (''1984'', ''George Orwell'', 1949),
      (''To Kill a Mockingbird'', ''Harper Lee'', 1960)]"

fun insert_all :: "db \<Rightarrow> (string \<times> string \<times> rat) list \<Rightarrow> exn + db" where
  "insert_all d [] = Inr d"
| "insert_all d ((t, a, y) # bs) =
     (case insert_book d t a y of Inl e \<Rightarrow> Inl e | Inr d' \<Rightarrow> insert_all d' bs)"

text \<open>The statements the module runs when it is loaded, after the connection is open.
  Nothing catches here: an error aborts the load.\<close>

definition bootstrap :: "db \<Rightarrow> exn + db" where
  "bootstrap d =
     (case create_table_if_not_exists d of
        Inl e \<Rightarrow> Inl e
      | Inr d1 \<Rightarrow>
          (case count_books d1 of
             Inl e \<Rightarrow> Inl e
           | Inr count \<Rightarrow> if count = 0 then insert_all d1 fakeBooks else Inr d1))"

text \<open>A new database file: no table, no counter.\<close>

definition empty_store :: db where
  "empty_store = \<lparr>fault = None, books_table = None, seq = 0\<rparr>"

definition seeded_store :: db where
  "seeded_store =
     \<lparr>fault = None,
      books_table = Some
        [\<lparr>book_id = 1, title = ''The Great Gatsby'', author = ''F. Scott Fitzgerald'', year = 1925\<rparr>,
         \<lparr>book_id = 2, title = ''1984'', author = ''George Orwell'', year = 1949\<rparr>,
         \<lparr>book_id = 3, title = ''To Kill a Mockingbird'', author = ''Harper Lee'', year = 1960\<rparr>],
      seq = 3\<rparr>"

section \<open>The request handler\<close>

text \<open>
  The request as the handler reads it: \<open>req.method\<close> (the field \<open>req_method\<close>),
  \<open>req.query.id\<close> and \<open>req.body\<close>. \<open>req.query.id\<close> has type
  \<open>string | string[] | undefined\<close>; \<open>req.body\<close> is read at the type of \<open>Book\<close>: an object
  whose \<open>title\<close>, \<open>author\<close> (strings) and \<open>year\<close> (a number) may each be missing.
\<close>

datatype query_value = Str js_string | Arr "js_string list"

record req_body =
  body_title :: "string option"
  body_author :: "string option"
  body_year :: "rat option"

record request =
  req_method :: string
  query_id :: "query_value option"
  body :: req_body

datatype res_body =
    Json_object "(string \<times> string) list"
  | Json_book book
  | Json_books "book list"
  | Json_undefined
  | End_empty
  | End_text string

record response =
  status :: nat
  headers :: "(string \<times> string list) list"
  sent :: res_body

text \<open>What one call of the handler leaves behind: the response, the database, the
  statements it ran (in order) and what it wrote with \<open>console.error\<close>.\<close>

record outcome =
  response :: response
  store :: db
  executed :: "stmt list"
  console :: "(string \<times> exn) list"

text \<open>\<open>req.query.id ? Number(req.query.id[0]) : null\<close>. A string is truthy when it is not
  empty and its element 0 is its first character; an array is always truthy and its
  element 0 is \<open>undefined\<close> when it is empty, which \<open>Number\<close> turns into \<open>NaN\<close>.\<close>

definition parse_id :: "query_value option \<Rightarrow> jsnum option" where
  "parse_id q =
     (case q of
        None \<Rightarrow> None
      | Some (Str s) \<Rightarrow> (case s of [] \<Rightarrow> None | c # _ \<Rightarrow> Some (Number_js [c]))
      | Some (Arr xs) \<Rightarrow> (case xs of [] \<Rightarrow> Some NaN | x # _ \<Rightarrow> Some (Number_js x)))"

definition truthy_id :: "jsnum option \<Rightarrow> bool" where
  "truthy_id i = (case i of None \<Rightarrow> False | Some n \<Rightarrow> truthy_num n)"

definition isNaN :: "jsnum option \<Rightarrow> bool" where
  "isNaN i = (case i of Some NaN \<Rightarrow> True | _ \<Rightarrow> False)"

text \<open>\<open>!title\<close>, \<open>!author\<close>, \<open>!year\<close>: a missing field, an empty string and the number 0
  are falsy.\<close>

definition falsy_str :: "string option \<Rightarrow> bool" where
  "falsy_str s = (case s of None \<Rightarrow> True | Some t \<Rightarrow> t = [])"

definition falsy_year :: "rat option \<Rightarrow> bool" where
  "falsy_year y = (case y of None \<Rightarrow> True | Some q \<Rightarrow> q = 0)"

definition reply :: "nat \<Rightarrow> res_body \<Rightarrow> db \<Rightarrow> stmt list \<Rightarrow> outcome" where
  "reply st b d tr =
     \<lparr>response = \<lparr>status = st, headers = [], sent = b\<rparr>,
      store = d, executed = tr, console = []\<rparr>"

text \<open>The three \<open>catch\<close> blocks: log the error under a tag, answer 500 with a fixed
  message.\<close>

definition caught :: "string \<Rightarrow> string \<Rightarrow> exn \<Rightarrow> db \<Rightarrow> stmt list \<Rightarrow> outcome" where
  "caught tag msg e d tr =
     \<lparr>response = \<lparr>status = 500, headers = [], sent = Json_object [(''error'', msg)]\<rparr>,
      store = d, executed = tr, console = [(tag, e)]\<rparr>"

text \<open>The three \<open>case\<close> blocks of the \<open>switch\<close>. \<open>the i\<close> is read only under
  \<open>truthy_id i\<close>, where \<open>i\<close> is a number; the body's fields are read only after the check
  that none of them is falsy.\<close>

definition handle_get :: "jsnum option \<Rightarrow> db \<Rightarrow> outcome" where
  "handle_get i d =
     (if truthy_id i then
        (case select_by_id d (the i) of
           Inl e \<Rightarrow> caught ''Error fetching books:'' ''Failed to fetch books'' e d
                      [Select_by_id (the i)]
         | Inr None \<Rightarrow> reply 404 (Json_object [(''error'', ''Book not found'')]) d
                         [Select_by_id (the i)]
         | Inr (Some b) \<Rightarrow> reply 200 (Json_book b) d [Select_by_id (the i)])
      else
        (case select_all d of
           Inl e \<Rightarrow> caught ''Error fetching books:'' ''Failed to fetch books'' e d [Select_all]
         | Inr bs \<Rightarrow> reply 200 (Json_books bs) d [Select_all]))"

definition handle_put :: "jsnum option \<Rightarrow> req_body \<Rightarrow> db \<Rightarrow> outcome" where
  "handle_put i bd d =
     (if \<not> truthy_id i then reply 400 (Json_object [(''error'', ''Missing book ID'')]) d []
      else if falsy_str (body_title bd) \<or> falsy_str (body_author bd) \<or> falsy_year (body_year bd)
      then reply 400 (Json_object [(''error'', ''Missing required fields'')]) d []
      else
        (let t = the (body_title bd); a = the (body_author bd); y = the (body_year bd);
             n = the i; upd = Update_books t a y n
         in case update_books d t a y n of
              Inl e \<Rightarrow> caught ''Error updating book:'' ''Failed to update book'' e d [upd]
            | Inr (changes, d') \<Rightarrow>
                if changes = 0
                then reply 404 (Json_object [(''error'', ''Book not found'')]) d' [upd]
                else
                  (case select_by_id d' n of
                     Inl e \<Rightarrow> caught ''Error updating book:'' ''Failed to update book'' e d'
                                [upd, Select_by_id n]
                   | Inr None \<Rightarrow> reply 200 Json_undefined d' [upd, Select_by_id n]
                   | Inr (Some b) \<Rightarrow> reply 200 (Json_book b) d' [upd, Select_by_id n])))"

definition handle_delete :: "jsnum option \<Rightarrow> db \<Rightarrow> outcome" where
  "handle_delete i d =
     (if \<not> truthy_id i then reply 400 (Json_object [(''error'', ''Missing book ID'')]) d []
      else
        (case delete_books d (the i) of
           Inl e \<Rightarrow> caught ''Error deleting book:'' ''Failed to delete book'' e d
                      [Delete_books (the i)]
         | Inr (changes, d') \<Rightarrow>
             if changes = 0
             then reply 404 (Json_object [(''error'', ''Book not found'')]) d'
                    [Delete_books (the i)]
             else reply 204 End_empty d' [Delete_books (the i)]))"

definition handler :: "request \<Rightarrow> db \<Rightarrow> outcome" where
  "handler req d =
     (let i = parse_id (query_id req) in
      if truthy_id i \<and> isNaN i
      then reply 400 (Json_object [(''error'', ''Invalid ID format'')]) d []
      else if req_method req = ''GET'' then handle_get i d
      else if req_method req = ''PUT'' then handle_put i (body req) d
      else if req_method req = ''DELETE'' then handle_delete i d
      else
        \<lparr>response = \<lparr>status = 405, headers = [(''Allow'', [''GET'', ''PUT'', ''DELETE''])],
                      sent = End_text (''Method '' @ req_method req @ '' Not Allowed'')\<rparr>,
         store = d, executed = [], console = []\<rparr>)"

section \<open>The page: list, selection and edit form\<close>

text \<open>
  \<open>interface FormData\<close> and the five \<open>useState\<close> cells of \<open>Home\<close>. The fields of the form
  are \<open>form_title\<close>, \<open>form_author\<close>, \<open>form_year\<close> here, since \<open>title\<close>, \<open>author\<close> and
  \<open>year\<close> are the fields of \<open>book\<close>.
\<close>

record form_data =
  form_title :: string
  form_author :: string
  form_year :: js_string

record view_state =
  books :: "book list"
  selectedBook :: "book option"
  editMode :: bool
  formData :: form_data
  error :: string

text \<open>
  A call of \<open>fetch\<close>: the target (\<open>/api/books\<close>, or \<open>/api/books/\<close> followed by an
  identifier), the method and the JSON body. What comes back is a response with its \<open>ok\<close>
  flag and its body read by \<open>response.json()\<close> (\<open>None\<close> when the body does not parse), or
  nothing at all when the promise rejects. The network is any function from a request
  and its own state to such a result.
\<close>

datatype target = Api_books | Api_books_id int

record fetch_request =
  url :: target
  fetch_method :: string
  json_payload :: "req_body option"

record fetch_response =
  ok :: bool
  json :: "book list option"

type_synonym 'w network = "fetch_request \<Rightarrow> 'w \<Rightarrow> fetch_response option \<times> 'w"

text \<open>The page while it runs: its state, the network's state and the requests it has
  issued so far.\<close>

record 'w client =
  view :: view_state
  world :: 'w
  requests :: "fetch_request list"

text \<open>\<open>JSON.stringify\<close> writes a number that is not finite as \<open>null\<close>.\<close>

definition json_number :: "jsnum \<Rightarrow> rat option" where
  "json_number n = (case n of Fin q \<Rightarrow> Some q | _ \<Rightarrow> None)"

definition setError :: "string \<Rightarrow> 'w client \<Rightarrow> 'w client" where
  "setError m c = c\<lparr>view := (view c)\<lparr>error := m\<rparr>\<rparr>"

definition fetch :: "'w network \<Rightarrow> fetch_request \<Rightarrow> 'w client \<Rightarrow> fetch_response option \<times> 'w client" where
  "fetch net rq c =
     (case net rq (world c) of
        (r, w) \<Rightarrow> (r, c\<lparr>world := w, requests := requests c @ [rq]\<rparr>))"

definition list_request :: fetch_request where
  "list_request = \<lparr>url = Api_books, fetch_method = ''GET'', json_payload = None\<rparr>"

definition update_request :: "book \<Rightarrow> form_data \<Rightarrow> fetch_request" where
  "update_request sb fd =
     \<lparr>url = Api_books_id (book_id sb), fetch_method = ''PUT'',
      json_payload = Some \<lparr>body_title = Some (form_title fd),
                           body_author = Some (form_author fd),
                           body_year = json_number (parseInt (form_year fd))\<rparr>\<rparr>"

definition delete_request :: "int \<Rightarrow> fetch_request" where
  "delete_request i = \<lparr>url = Api_books_id i, fetch_method = ''DELETE'', json_payload = None\<rparr>"

definition fetchBooks :: "'w network \<Rightarrow> 'w client \<Rightarrow> 'w client" where
  "fetchBooks net c =
     (case fetch net list_request c of
        (None, c1) \<Rightarrow> setError ''Error fetching books'' c1
      | (Some resp, c1) \<Rightarrow>
          if \<not> ok resp then setError ''Error fetching books'' c1
          else (case json resp of
                  None \<Rightarrow> setError ''Error fetching books'' c1
                | Some data \<Rightarrow> c1\<lparr>view := (view c1)\<lparr>books := data, error := []\<rparr>\<rparr>))"

definition handleUpdate :: "'w network \<Rightarrow> 'w client \<Rightarrow> 'w client" where
  "handleUpdate net c =
     (case selectedBook (view c) of
        None \<Rightarrow> c
      | Some sb \<Rightarrow>
          (case fetch net (update_request sb (formData (view c))) c of
             (None, c1) \<Rightarrow> setError ''Error updating book'' c1
           | (Some resp, c1) \<Rightarrow>
               if \<not> ok resp then setError ''Error updating book'' c1
               else fetchBooks net
                      (c1\<lparr>view := (view c1)\<lparr>editMode := False, selectedBook := None,
                                              error := []\<rparr>\<rparr>)))"

definition handleDelete :: "'w network \<Rightarrow> int \<Rightarrow> 'w client \<Rightarrow> 'w client" where
  "handleDelete net i c =
     (case fetch net (delete_request i) c of
        (None, c1) \<Rightarrow> setError ''Error deleting book'' c1
      | (Some resp, c1) \<Rightarrow>
          if \<not> ok resp then setError ''Error deleting book'' c1
          else fetchBooks net (setError [] c1))"

text \<open>The \<open>onClick\<close> of the Cancel button: \<open>() => setEditMode(false)\<close>.\<close>

definition cancel_onClick :: "'w client \<Rightarrow> 'w client" where
  "cancel_onClick c = c\<lparr>view := (view c)\<lparr>editMode := False\<rparr>\<rparr>"

text \<open>The form as \<open>useState\<close> creates it.\<close>

definition initial_form :: form_data where
  "initial_form = \<lparr>form_title = [], form_author = [], form_year = []\<rparr>"

section \<open>Concrete requests, stores and pages\<close>

text \<open>A request as a catch-all route delivers it: \<open>query.id\<close> is the array of the path
  segments after the route, here one token.\<close>

definition request_for :: "string \<Rightarrow> js_string \<Rightarrow> req_body \<Rightarrow> request" where
  "request_for m tok bd = \<lparr>req_method = m, query_id = Some (Arr [tok]), body = bd\<rparr>"

definition request_without_id :: "string \<Rightarrow> req_body \<Rightarrow> request" where
  "request_without_id m bd = \<lparr>req_method = m, query_id = None, body = bd\<rparr>"

definition no_body :: req_body where
  "no_body = \<lparr>body_title = None, body_author = None, body_year = None\<rparr>"

definition complete_body :: req_body where
  "complete_body =
     \<lparr>body_title = Some ''Nineteen Eighty-Four'', body_author = Some ''George Orwell'',
      body_year = Some 2000\<rparr>"

definition body_without_year :: req_body where
  "body_without_year =
     \<lparr>body_title = Some ''Nineteen Eighty-Four'', body_author = Some ''George Orwell'',
      body_year = None\<rparr>"

definition gatsby :: book where
  "gatsby = \<lparr>book_id = 1, title = ''The Great Gatsby'', author = ''F. Scott Fitzgerald'',
             year = 1925\<rparr>"

definition orwell :: book where
  "orwell = \<lparr>book_id = 2, title = ''1984'', author = ''George Orwell'', year = 1949\<rparr>"

definition mockingbird :: book where
  "mockingbird = \<lparr>book_id = 3, title = ''To Kill a Mockingbird'', author = ''Harper Lee'',
                  year = 1960\<rparr>"

definition orwell_updated :: book where
  "orwell_updated = \<lparr>book_id = 2, title = ''Nineteen Eighty-Four'', author = ''George Orwell'',
                     year = 2000\<rparr>"

text \<open>The seeded store behind a file that cannot be used.\<close>

definition locked_store :: db where
  "locked_store = seeded_store\<lparr>fault := Some ''database is locked''\<rparr>"

text \<open>The seeded store after its three rows have been deleted (the table is empty, the
  counter stays), and what a restart makes of it.\<close>

definition emptied_store :: db where
  "emptied_store = \<lparr>fault = None, books_table = Some [], seq = 3\<rparr>"

definition reseeded_store :: db where
  "reseeded_store =
     \<lparr>fault = None,
      books_table = Some
        [\<lparr>book_id = 4, title = ''The Great Gatsby'', author = ''F. Scott Fitzgerald'', year = 1925\<rparr>,
         \<lparr>book_id = 5, title = ''1984'', author = ''George Orwell'', year = 1949\<rparr>,
         \<lparr>book_id = 6, title = ''To Kill a Mockingbird'', author = ''Harper Lee'', year = 1960\<rparr>],
      seq = 6\<rparr>"

text \<open>A network that answers from a script, one entry for each request in turn, and
  rejects once the script is used up.\<close>

definition scripted :: "fetch_response option list network" where
  "scripted rq w = (case w of [] \<Rightarrow> (None, []) | r # rs \<Rightarrow> (r, rs))"

text \<open>The page with the three seeded books, the second one open in the form and its title
  and year edited.\<close>

definition editing_orwell :: "fetch_response option list \<Rightarrow> fetch_response option list client" where
  "editing_orwell w =
     \<lparr>view = \<lparr>books = [gatsby, orwell, mockingbird], selectedBook = Some orwell,
              editMode = True,
              formData = \<lparr>form_title = ''Nineteen Eighty-Four'', form_author = ''George Orwell'',
                          form_year = js ''2000''\<rparr>,
              error = []\<rparr>,
      world = w, requests = []\<rparr>"

text \<open>The same page with the book's own title, and a year typed in that no double holds
  exactly.\<close>

definition editing_year_2_53_1 :: "fetch_response option list \<Rightarrow> fetch_response option list client" where
  "editing_year_2_53_1 w =
     \<lparr>view = \<lparr>books = [gatsby, orwell, mockingbird], selectedBook = Some orwell,
              editMode = True,
              formData = \<lparr>form_title = ''1984'', form_author = ''George Orwell'',
                          form_year = js ''9007199254740993''\<rparr>,
              error = []\<rparr>,
      world = w, requests = []\<rparr>"

text \<open>Two scripts for a submit: the update is accepted and the list that is fetched next
  holds the new values; the update is refused.\<close>

definition script_accepted :: "fetch_response option list" where
  "script_accepted =
     [Some \<lparr>ok = True, json = None\<rparr>,
      Some \<lparr>ok = True, json = Some [gatsby, orwell_updated, mockingbird]\<rparr>]"

definition script_refused :: "fetch_response option list" where
  "script_refused = [Some \<lparr>ok = False, json = None\<rparr>]"

text \<open>An awaited \<open>fetch\<close> went through: the promise resolved and \<open>response.ok\<close> holds.\<close>

definition went_through :: "fetch_response option \<Rightarrow> bool" where
  "went_through r = (case r of None \<Rightarrow> False | Some resp \<Rightarrow> ok resp)"

section \<open>Evaluation and helper lemmas\<close>

text \<open>Rounding to a double: what it does to integers.\<close>

lemma bit_length_bound: "n < 2 ^ k \<Longrightarrow> bit_length n \<le> k"
proof (induction k arbitrary: n)
  case 0
  then show ?case by (simp add: bit_length.simps)
next
  case (Suc k)
  show ?case
  proof (cases "n = 0")
    case True
    then show ?thesis by (simp add: bit_length.simps)
  next
    case False
    from Suc.prems have "n div 2 < 2 ^ k" by simp
    then have "bit_length (n div 2) \<le> k" by (rule Suc.IH)
    with False show ?thesis by (subst bit_length.simps) simp
  qed
qed

lemma pow2_nonpos: "k \<le> 0 \<Longrightarrow> pow2 k = 1 / 2 ^ nat (- k)"
  by (cases "k = 0") (simp_all add: pow2_def)

lemma round_half_even_of_int: "round_half_even (of_int z) = z"
  by (simp add: round_half_even_def)

lemma round_exact:
  assumes "k \<le> 0" and "a \<in> \<int>"
  shows "of_int (round_half_even (a / pow2 k)) * pow2 k = a"
proof -
  from assms(2) obtain z where z: "a = of_int z" by (auto elim: Ints_cases)
  have "a / pow2 k = of_int (z * 2 ^ nat (- k))"
    using assms(1) by (simp add: pow2_nonpos z)
  then have "round_half_even (a / pow2 k) = z * 2 ^ nat (- k)"
    by (simp only: round_half_even_of_int)
  then show ?thesis using assms(1) by (simp add: pow2_nonpos z)
qed

lemma round_on_integer_grid: "0 \<le> k \<Longrightarrow> of_int m * pow2 k \<in> \<int>"
  by (simp add: pow2_def)

lemma rounded_integer:
  assumes "a \<in> \<int>"
  shows "of_int (round_half_even (a / pow2 k)) * pow2 k \<in> \<int>"
proof (cases "k \<le> 0")
  case True
  then show ?thesis using assms by (simp add: round_exact)
next
  case False
  then show ?thesis by (simp add: round_on_integer_grid)
qed

lemma round_double_integer: "q \<in> \<int> \<Longrightarrow> round_double q = Fin r \<Longrightarrow> r \<in> \<int>"
  using rounded_integer [of "\<bar>q\<bar>" "double_exponent \<bar>q\<bar> - 52"]
  by (auto simp: round_double_def Let_def split: if_splits)

text \<open>An integer below \<open>2 ^ 53\<close> is a double.\<close>

lemma round_double_safe_integer:
  assumes "q \<in> \<int>" and "\<bar>q\<bar> < 2 ^ 53"
  shows "round_double q = Fin q"
proof -
  let ?a = "\<bar>q\<bar>"
  from assms(1) have ai: "?a \<in> \<int>" by simp
  then obtain z where z: "?a = of_int z" by (auto elim: Ints_cases)
  have z0: "0 \<le> z" using z by (metis abs_ge_zero of_int_0_le_iff)
  have "double_exponent ?a \<le> 52"
  proof (cases "?a < pow2 (- 1022)")
    case True
    then show ?thesis by (simp add: double_exponent_def)
  next
    case False
    have "pow2 (- 1022) > 0" by (simp add: pow2_def)
    with False have "0 < ?a" by linarith
    with z have "1 \<le> z" by simp
    then have a1: "1 \<le> ?a" using z by simp
    have big: "\<not> 2 ^ 1024 \<le> ?a"
    proof -
      have "(2::rat) ^ 53 \<le> 2 ^ 1024" by (rule power_increasing) simp_all
      with assms(2) show ?thesis by linarith
    qed
    have "nat \<lfloor>?a\<rfloor> = nat z" by (simp only: z floor_of_int)
    moreover have "nat z < 2 ^ 53"
    proof -
      from assms(2) z have "(of_int z :: rat) < of_int (2 ^ 53)" by simp
      then have "z < 2 ^ 53" by (simp only: of_int_less_iff)
      with z0 show ?thesis by (simp add: nat_less_iff)
    qed
    ultimately have "bit_length (nat \<lfloor>?a\<rfloor>) \<le> 53" by (simp add: bit_length_bound)
    then show ?thesis using False big a1 by (simp add: double_exponent_def binary_exponent_def)
  qed
  then have k: "double_exponent ?a - 52 \<le> 0" by simp
  have r: "of_int (round_half_even (?a / pow2 (double_exponent ?a - 52)))
             * pow2 (double_exponent ?a - 52) = ?a"
    using k ai by (rule round_exact)
  have "\<not> 2 ^ 1024 \<le> ?a"
  proof -
    have "(2::rat) ^ 53 \<le> 2 ^ 1024" by (rule power_increasing) simp_all
    with assms(2) show ?thesis by linarith
  qed
  then show ?thesis
    unfolding round_double_def Let_def r by auto
qed

lemmas js_eval = js_def Number_js_def trim_def isWhiteSpace_def non_decimal_literal_def
  str_decimal_literal_def str_unsigned_decimal_def is_digit_in_def digit_of_def round_num_def
  round_double_safe_integer all_digits_def digits_value_def exponent_part_def scale10_def
  parseInt_def negate_def

lemma parse_id_abc: "parse_id (Some (Arr [js ''abc''])) = Some NaN"
  by (simp add: parse_id_def js_eval)

lemma parse_id_0: "parse_id (Some (Arr [js ''0''])) = Some (Fin 0)"
  by (simp add: parse_id_def js_eval)

lemma parse_id_2: "parse_id (Some (Arr [js ''2''])) = Some (Fin 2)"
  by (simp add: parse_id_def js_eval)


lemma parseInt_2000: "parseInt (js ''2000'') = Fin 2000"
  by (simp add: js_eval)

lemma round_double_of_nat: "round_double (rat_of_nat n) = Fin q \<Longrightarrow> q \<in> \<int>"
  by (rule round_double_integer [of "rat_of_nat n"]) simp_all

lemma round_double_neg_of_nat: "round_double (- rat_of_nat n) = Fin q \<Longrightarrow> q \<in> \<int>"
  by (rule round_double_integer [of "- rat_of_nat n"]) simp_all

lemma parseInt_integer: "parseInt s = Fin q \<Longrightarrow> q \<in> \<int>"
  unfolding parseInt_def Let_def
  by (auto split: if_splits dest: round_double_of_nat round_double_neg_of_nat)

text \<open>Rounding where the value is not a double: a token one part in \<open>10 ^ 17\<close> above 2
  is the number 2, white space of any kind is trimmed, and \<open>2 ^ 53 + 1\<close> lies halfway
  between two doubles and goes to the even one.\<close>

lemmas js_parse = js_def Number_js_def trim_def isWhiteSpace_def non_decimal_literal_def
  str_decimal_literal_def str_unsigned_decimal_def is_digit_in_def digit_of_def round_num_def
  all_digits_def digits_value_def exponent_part_def scale10_def parseInt_def negate_def

lemma floor_numeral_div: "\<lfloor>numeral a / numeral b :: rat\<rfloor> = numeral a div numeral b"
  using floor_divide_of_int_eq [of "numeral a" "numeral b", where ?'a = rat] by simp




lemma exponent_2_53_1: "double_exponent \<bar>9007199254740993\<bar> = 53"
  by (simp add: double_exponent_def binary_exponent_def pow2_def bit_length.simps floor_numeral_div)

lemma round_2_53_1: "round_double 9007199254740993 = Fin 9007199254740992"
  unfolding round_double_def Let_def exponent_2_53_1
  by (simp add: pow2_def round_half_even_def Let_def floor_numeral_div)

lemma parseInt_2_53_1: "parseInt (js ''9007199254740993'') = Fin 9007199254740992"
proof -
  have "parseInt (js ''9007199254740993'') = round_double 9007199254740993"
    by (simp add: js_parse)
  then show ?thesis by (simp only: round_2_53_1)
qed

lemma Number_js_no_break_space: "Number_js [160, 50, 8232] = Fin 2"
  by (simp add: js_eval)


lemma seeded_rows: "books_table seeded_store = Some [gatsby, orwell, mockingbird]"
  by (simp add: seeded_store_def gatsby_def orwell_def mockingbird_def)

lemma seeded_fault: "fault seeded_store = None"
  by (simp add: seeded_store_def)


text \<open>The guard \<open>id && isNaN(id)\<close> never holds: \<open>NaN\<close> is falsy.\<close>

lemma invalid_id_unreachable: "\<not> (truthy_id i \<and> isNaN i)"
  by (cases i) (auto simp: truthy_id_def isNaN_def truthy_num_def split: jsnum.splits)

lemma handler_GET:
  "req_method req = ''GET'' \<Longrightarrow> handler req d = handle_get (parse_id (query_id req)) d"
  using invalid_id_unreachable [of "parse_id (query_id req)"]
  by (auto simp: handler_def Let_def)

lemma handler_PUT:
  "req_method req = ''PUT'' \<Longrightarrow> handler req d = handle_put (parse_id (query_id req)) (body req) d"
  using invalid_id_unreachable [of "parse_id (query_id req)"]
  by (auto simp: handler_def Let_def)

lemma handler_DELETE:
  "req_method req = ''DELETE'' \<Longrightarrow> handler req d = handle_delete (parse_id (query_id req)) d"
  using invalid_id_unreachable [of "parse_id (query_id req)"]
  by (auto simp: handler_def Let_def)











section \<open>Identifier parsing\<close>

text \<open>
  Claim C1: a request whose identifier token is present but not a number is answered 400
  with no store access, whatever the method. The handler does not do so for \<open>GET\<close>: the token
  \<open>abc\<close> parses to \<open>NaN\<close>, which the guard before the \<open>switch\<close> lets through and the \<open>GET\<close>
  branch takes for no identifier, so the handler reads the whole table and answers 200.
\<close>

theorem get_non_numeric_id_lists_all:
  "response (handler (request_for ''GET'' (js ''abc'') no_body) seeded_store) =
     \<lparr>status = 200, headers = [], sent = Json_books [gatsby, orwell, mockingbird]\<rparr>
   \<and> executed (handler (request_for ''GET'' (js ''abc'') no_body) seeded_store) = [Select_all]"
  by (simp add: handler_GET request_for_def parse_id_abc handle_get_def truthy_id_def
      truthy_num_def select_all_def prepare_def seeded_rows seeded_fault reply_def)

text \<open>
  Claim C10: an identifier that parses to 0 is treated as no identifier at all. The
  handler answers as it does for the same request without identifier; a \<open>GET\<close> runs the
  list query and, on a working store, answers 200 with every row; a \<open>PUT\<close> or \<open>DELETE\<close> is
  answered 400 \<open>Missing book ID\<close>, runs no statement and leaves the store as it was.
\<close>

theorem zero_id_as_absent:
  assumes "parse_id (query_id req) = Some (Fin 0)"
  shows "handler req d = handler (req\<lparr>query_id := None\<rparr>) d
       \<and> (req_method req = ''GET'' \<longrightarrow>
            executed (handler req d) = [Select_all]
            \<and> (\<forall>rows. fault d = None \<and> books_table d = Some rows \<longrightarrow>
                 response (handler req d) =
                   \<lparr>status = 200, headers = [], sent = Json_books rows\<rparr>))
       \<and> (req_method req = ''PUT'' \<or> req_method req = ''DELETE'' \<longrightarrow>
            response (handler req d) =
              \<lparr>status = 400, headers = [], sent = Json_object [(''error'', ''Missing book ID'')]\<rparr>
            \<and> executed (handler req d) = [] \<and> store (handler req d) = d)"
proof -
  have t: "\<not> truthy_id (Some (Fin 0))" "\<not> truthy_id None"
    by (simp_all add: truthy_id_def truthy_num_def)
  have e1: "parse_id None = None"
    by (simp add: parse_id_def)
  have a: "handler req d = handler (req\<lparr>query_id := None\<rparr>) d"
    using t by (simp add: handler_def Let_def assms e1 isNaN_def handle_get_def handle_put_def
        handle_delete_def)
  have b: "executed (handler req d) = [Select_all]
            \<and> (\<forall>rows. fault d = None \<and> books_table d = Some rows \<longrightarrow>
                 response (handler req d) =
                   \<lparr>status = 200, headers = [], sent = Json_books rows\<rparr>)"
    if "req_method req = ''GET''"
    using t that
    by (auto simp: handler_GET assms handle_get_def select_all_def prepare_def reply_def caught_def
        split: option.splits)
  have c: "response (handler req d) =
              \<lparr>status = 400, headers = [], sent = Json_object [(''error'', ''Missing book ID'')]\<rparr>
            \<and> executed (handler req d) = [] \<and> store (handler req d) = d"
    if "req_method req = ''PUT'' \<or> req_method req = ''DELETE''"
    using t that
    by (auto simp: handler_PUT handler_DELETE assms handle_put_def handle_delete_def reply_def)
  from a b c show ?thesis by blast
qed

theorem zero_id_as_absent_witness:
  "parse_id (query_id (request_for ''GET'' (js ''0'') no_body)) = Some (Fin 0)
   \<and> handler (request_for ''GET'' (js ''0'') no_body) seeded_store
       = handler (request_without_id ''GET'' no_body) seeded_store
   \<and> response (handler (request_for ''GET'' (js ''0'') no_body) seeded_store) =
       \<lparr>status = 200, headers = [], sent = Json_books [gatsby, orwell, mockingbird]\<rparr>
   \<and> parse_id (query_id (request_for ''DELETE'' (js ''0'') no_body)) = Some (Fin 0)
   \<and> response (handler (request_for ''DELETE'' (js ''0'') no_body) seeded_store) =
       \<lparr>status = 400, headers = [], sent = Json_object [(''error'', ''Missing book ID'')]\<rparr>
   \<and> executed (handler (request_for ''DELETE'' (js ''0'') no_body) seeded_store) = []
   \<and> store (handler (request_for ''DELETE'' (js ''0'') no_body) seeded_store) = seeded_store"
proof -
  have g: "parse_id (query_id (request_for ''GET'' (js ''0'') no_body)) = Some (Fin 0)"
    by (simp add: request_for_def parse_id_0)
  have dl: "parse_id (query_id (request_for ''DELETE'' (js ''0'') no_body)) = Some (Fin 0)"
    by (simp add: request_for_def parse_id_0)
  note zg = zero_id_as_absent [OF g, of seeded_store]
  note zd = zero_id_as_absent [OF dl, of seeded_store]
  have g1: "handler (request_for ''GET'' (js ''0'') no_body) seeded_store
       = handler (request_without_id ''GET'' no_body) seeded_store"
    using zg [THEN conjunct1] by (simp add: request_for_def request_without_id_def)
  have g2: "response (handler (request_for ''GET'' (js ''0'') no_body) seeded_store) =
       \<lparr>status = 200, headers = [], sent = Json_books [gatsby, orwell, mockingbird]\<rparr>"
    using zg [THEN conjunct2, THEN conjunct1] seeded_rows seeded_fault
    by (simp add: request_for_def)
  have d1: "response (handler (request_for ''DELETE'' (js ''0'') no_body) seeded_store) =
       \<lparr>status = 400, headers = [], sent = Json_object [(''error'', ''Missing book ID'')]\<rparr>
   \<and> executed (handler (request_for ''DELETE'' (js ''0'') no_body) seeded_store) = []
   \<and> store (handler (request_for ''DELETE'' (js ''0'') no_body) seeded_store) = seeded_store"
    using zd [THEN conjunct2, THEN conjunct2] by (simp add: request_for_def)
  from g dl g1 g2 d1 show ?thesis by blast
qed

section \<open>Schema and seed\<close>

text \<open>
  Claim C3: the bootstrap is idempotent. On a new database file it creates the table and
  inserts the three seed rows; run again on the result it succeeds (the table being
  there is no error) and changes nothing. More generally a second run after any
  successful run succeeds and leaves the database exactly as the first run left it, so
  the seed rows are never inserted twice.
\<close>

theorem bootstrap_idempotent:
  "bootstrap empty_store = Inr seeded_store
   \<and> bootstrap seeded_store = Inr seeded_store
   \<and> books_table seeded_store = Some [gatsby, orwell, mockingbird]
   \<and> (\<forall>d d'. bootstrap d = Inr d' \<longrightarrow> bootstrap d' = Inr d')"
proof -
  have a: "bootstrap empty_store = Inr seeded_store"
    by (simp add: bootstrap_def create_table_if_not_exists_def empty_store_def count_books_def
        prepare_def fakeBooks_def insert_book_def seeded_store_def)
  have b: "bootstrap seeded_store = Inr seeded_store"
    by (simp add: bootstrap_def create_table_if_not_exists_def count_books_def
        prepare_def seeded_store_def)
  have c: "bootstrap d' = Inr d'" if h: "bootstrap d = Inr d'" for d d'
  proof -
    from h have f: "fault d = None"
      by (auto simp: bootstrap_def create_table_if_not_exists_def split: option.splits)
    have "\<exists>rows. books_table d' = Some rows \<and> rows \<noteq> [] \<and> fault d' = None"
      using h f
      by (auto simp: bootstrap_def create_table_if_not_exists_def count_books_def
          prepare_def fakeBooks_def insert_book_def Let_def split: option.splits if_splits)
    then show ?thesis
      by (auto simp: bootstrap_def create_table_if_not_exists_def count_books_def prepare_def)
  qed
  from a b c seeded_rows show ?thesis by blast
qed

theorem bootstrap_idempotent_witness:
  "bootstrap empty_store = Inr seeded_store \<and> bootstrap seeded_store = Inr seeded_store
   \<and> bootstrap emptied_store = Inr reseeded_store
   \<and> bootstrap reseeded_store = Inr reseeded_store"
proof -
  have h: "bootstrap emptied_store = Inr reseeded_store"
    by (simp add: bootstrap_def create_table_if_not_exists_def emptied_store_def count_books_def
        prepare_def fakeBooks_def insert_book_def reseeded_store_def)
  from bootstrap_idempotent have "bootstrap reseeded_store = Inr reseeded_store"
    using h by blast
  with h bootstrap_idempotent show ?thesis by blast
qed

section \<open>Update\<close>

text \<open>
  Claim C4: a \<open>PUT\<close> with a truthy identifier whose body lacks \<open>title\<close>, \<open>author\<close> or \<open>year\<close>,
  or holds a falsy value for one of them, is answered 400 \<open>Missing required fields\<close>; no
  statement is run and the store is as it was.
\<close>

theorem put_missing_fields_rejected:
  assumes "req_method req = ''PUT''"
    and "truthy_id (parse_id (query_id req))"
    and "falsy_str (body_title (body req)) \<or> falsy_str (body_author (body req))
         \<or> falsy_year (body_year (body req))"
  shows "response (handler req d) =
           \<lparr>status = 400, headers = [],
            sent = Json_object [(''error'', ''Missing required fields'')]\<rparr>
         \<and> store (handler req d) = d \<and> executed (handler req d) = []"
  using assms by (auto simp: handler_PUT handle_put_def reply_def)

theorem put_missing_fields_rejected_witness:
  "req_method (request_for ''PUT'' (js ''2'') body_without_year) = ''PUT''
   \<and> truthy_id (parse_id (query_id (request_for ''PUT'' (js ''2'') body_without_year)))
   \<and> falsy_year (body_year (body (request_for ''PUT'' (js ''2'') body_without_year)))
   \<and> response (handler (request_for ''PUT'' (js ''2'') body_without_year) seeded_store) =
       \<lparr>status = 400, headers = [],
        sent = Json_object [(''error'', ''Missing required fields'')]\<rparr>
   \<and> store (handler (request_for ''PUT'' (js ''2'') body_without_year) seeded_store) = seeded_store
   \<and> executed (handler (request_for ''PUT'' (js ''2'') body_without_year) seeded_store) = []"
proof -
  let ?r = "request_for ''PUT'' (js ''2'') body_without_year"
  have m: "req_method ?r = ''PUT''" by (simp add: request_for_def)
  have i: "truthy_id (parse_id (query_id ?r))"
    by (simp add: request_for_def parse_id_2 truthy_id_def truthy_num_def)
  have y: "falsy_year (body_year (body ?r))"
    by (simp add: request_for_def body_without_year_def falsy_year_def)
  from y have f: "falsy_str (body_title (body ?r)) \<or> falsy_str (body_author (body ?r))
         \<or> falsy_year (body_year (body ?r))" by simp
  from m i y put_missing_fields_rejected [OF m i f, of seeded_store] show ?thesis by blast
qed



section \<open>Delete\<close>



section \<open>Read\<close>



section \<open>Store failures\<close>

text \<open>
  Claim C9: when the store throws on a request that reaches it, the handler answers 500
  with a body that holds one fixed message for the method and nothing of the error; the
  error itself goes to the console, under a fixed tag, and the store is as it was.
\<close>

theorem store_exception_generic:
  assumes "prepare d = Inl e" and "executed (handler req d) \<noteq> []"
  shows "response (handler req d) =
           \<lparr>status = 500, headers = [],
            sent = Json_object [(''error'',
                     if req_method req = ''GET'' then ''Failed to fetch books''
                     else if req_method req = ''PUT'' then ''Failed to update book''
                     else ''Failed to delete book'')]\<rparr>
         \<and> console (handler req d) =
             [(if req_method req = ''GET'' then ''Error fetching books:''
               else if req_method req = ''PUT'' then ''Error updating book:''
               else ''Error deleting book:'', e)]
         \<and> store (handler req d) = d"
proof -
  let ?i = "parse_id (query_id req)"
  consider (get) "req_method req = ''GET''" | (put) "req_method req = ''PUT''"
    | (del) "req_method req = ''DELETE''"
    | (other) "req_method req \<noteq> ''GET''" "req_method req \<noteq> ''PUT''"
        "req_method req \<noteq> ''DELETE''"
    by blast
  then show ?thesis
  proof cases
    case get
    have "handler req d = handle_get ?i d" using get by (rule handler_GET)
    then show ?thesis
      using get assms(1)
      by (simp add: handle_get_def select_by_id_def select_all_def caught_def)
  next
    case put
    have h: "handler req d = handle_put ?i (body req) d" using put by (rule handler_PUT)
    have "executed (handle_put ?i (body req) d) \<noteq> []" using assms(2) h by simp
    then have "handle_put ?i (body req) d =
        caught ''Error updating book:'' ''Failed to update book'' e d
          [Update_books (the (body_title (body req))) (the (body_author (body req)))
             (the (body_year (body req))) (the ?i)]"
      using assms(1)
      by (simp add: handle_put_def update_books_def reply_def Let_def split: if_splits)
    then show ?thesis using put h by (simp add: caught_def)
  next
    case del
    have h: "handler req d = handle_delete ?i d" using del by (rule handler_DELETE)
    have "executed (handle_delete ?i d) \<noteq> []" using assms(2) h by simp
    then have "handle_delete ?i d =
        caught ''Error deleting book:'' ''Failed to delete book'' e d [Delete_books (the ?i)]"
      using assms(1)
      by (simp add: handle_delete_def delete_books_def reply_def split: if_splits)
    then show ?thesis using del h by (simp add: caught_def)
  next
    case other
    then have "executed (handler req d) = []"
      by (simp add: handler_def Let_def reply_def)
    with assms(2) show ?thesis by simp
  qed
qed

theorem store_exception_generic_witness:
  "prepare locked_store = Inl (SqliteError ''database is locked'')
   \<and> executed (handler (request_without_id ''GET'' no_body) locked_store) = [Select_all]
   \<and> response (handler (request_without_id ''GET'' no_body) locked_store) =
       \<lparr>status = 500, headers = [], sent = Json_object [(''error'', ''Failed to fetch books'')]\<rparr>
   \<and> console (handler (request_without_id ''GET'' no_body) locked_store) =
       [(''Error fetching books:'', SqliteError ''database is locked'')]
   \<and> response (handler (request_for ''PUT'' (js ''2'') complete_body) locked_store) =
       \<lparr>status = 500, headers = [], sent = Json_object [(''error'', ''Failed to update book'')]\<rparr>
   \<and> response (handler (request_for ''DELETE'' (js ''2'') no_body) (empty_store)) =
       \<lparr>status = 500, headers = [], sent = Json_object [(''error'', ''Failed to delete book'')]\<rparr>
   \<and> console (handler (request_for ''DELETE'' (js ''2'') no_body) (empty_store)) =
       [(''Error deleting book:'', SqliteError ''no such table: books'')]"
proof -
  let ?g = "request_without_id ''GET'' no_body"
  let ?p = "request_for ''PUT'' (js ''2'') complete_body"
  let ?x = "request_for ''DELETE'' (js ''2'') no_body"
  have l: "prepare locked_store = Inl (SqliteError ''database is locked'')"
    by (simp add: prepare_def locked_store_def)
  have n: "prepare empty_store = Inl (SqliteError ''no such table: books'')"
    by (simp add: prepare_def empty_store_def)
  have t2: "truthy_id (Some (Fin 2))" by (simp add: truthy_id_def truthy_num_def)
  have eg: "executed (handler ?g locked_store) = [Select_all]"
    by (simp add: handler_GET request_without_id_def parse_id_def handle_get_def truthy_id_def
        select_all_def l caught_def)
  have ep: "executed (handler ?p locked_store) \<noteq> []"
    using t2
    by (simp add: handler_PUT request_for_def parse_id_2 handle_put_def complete_body_def
        falsy_str_def falsy_year_def update_books_def l caught_def)
  have ex: "executed (handler ?x empty_store) \<noteq> []"
    using t2
    by (simp add: handler_DELETE request_for_def parse_id_2 handle_delete_def
        delete_books_def n caught_def)
  have eg': "executed (handler ?g locked_store) \<noteq> []" using eg by simp
  have a: "response (handler ?g locked_store) =
       \<lparr>status = 500, headers = [], sent = Json_object [(''error'', ''Failed to fetch books'')]\<rparr>
     \<and> console (handler ?g locked_store) =
       [(''Error fetching books:'', SqliteError ''database is locked'')]"
    using store_exception_generic [OF l eg'] by (simp add: request_without_id_def)
  have b: "response (handler ?p locked_store) =
       \<lparr>status = 500, headers = [], sent = Json_object [(''error'', ''Failed to update book'')]\<rparr>"
    using store_exception_generic [OF l ep] by (simp add: request_for_def)
  have c: "response (handler ?x empty_store) =
       \<lparr>status = 500, headers = [], sent = Json_object [(''error'', ''Failed to delete book'')]\<rparr>
     \<and> console (handler ?x empty_store) =
       [(''Error deleting book:'', SqliteError ''no such table: books'')]"
    using store_exception_generic [OF n ex] by (simp add: request_for_def)
  from l eg a b c show ?thesis by blast
qed

section \<open>The page\<close>

text \<open>
  Claim C2, as stated: Cancel returns the page to browsing, discards the contents of the
  form and the selection, and issues no request. The page does not discard them: on the
  page that is editing the second seeded book, after Cancel the form still holds the
  edited values, not the empty strings it starts with, and the book is still selected.
\<close>

theorem cancel_keeps_form_and_selection:
  "formData (view (cancel_onClick (editing_orwell []))) =
     \<lparr>form_title = ''Nineteen Eighty-Four'', form_author = ''George Orwell'',
      form_year = js ''2000''\<rparr>
   \<and> formData (view (cancel_onClick (editing_orwell []))) \<noteq> initial_form
   \<and> selectedBook (view (cancel_onClick (editing_orwell []))) = Some orwell"
  by (simp add: cancel_onClick_def editing_orwell_def initial_form_def)

text \<open>
  Claim C2, amended: Cancel clears the edit-mode flag, which returns the page to browsing,
  and issues no request; the contents of the form, the list and the error message are
  left as they were.
\<close>

theorem cancel_clears_edit_mode:
  "editMode (view (cancel_onClick c)) = False
   \<and> formData (view (cancel_onClick c)) = formData (view c)
   \<and> books (view (cancel_onClick c)) = books (view c)
   \<and> error (view (cancel_onClick c)) = error (view c)
   \<and> requests (cancel_onClick c) = requests c
   \<and> world (cancel_onClick c) = world c"
  by (simp add: cancel_onClick_def)

text \<open>What one run of \<open>fetchBooks\<close> does to the page: one list request, and the list
  replaced by the fetched one when the fetch yields one.\<close>

lemma fetchBooks_effect:
  "requests (fetchBooks net c) = requests c @ [list_request]
   \<and> editMode (view (fetchBooks net c)) = editMode (view c)
   \<and> selectedBook (view (fetchBooks net c)) = selectedBook (view c)
   \<and> formData (view (fetchBooks net c)) = formData (view c)
   \<and> books (view (fetchBooks net c)) =
       (case fst (net list_request (world c)) of
          None \<Rightarrow> books (view c)
        | Some resp2 \<Rightarrow>
            if ok resp2
            then (case json resp2 of None \<Rightarrow> books (view c) | Some data \<Rightarrow> data)
            else books (view c))"
proof (cases "net list_request (world c)")
  case (Pair r w)
  then show ?thesis
    by (cases r) (simp_all add: fetchBooks_def fetch_def setError_def split: option.splits)
qed

text \<open>
  Claim C8: submit, with a book selected. The page sends one \<open>PUT\<close> to the selected book's
  identifier, whose body holds the form's title and author and the form's year read by
  \<open>parseInt\<close>, an integer whenever it is a number. If that request goes through, the page
  leaves edit mode, drops the selection and sends the list request next, whatever the
  update returned; the list it shows afterwards is the fetched one, or the list it had
  when the fetch fails, and never anything built from the form. If the request does not
  go through, only the error message changes: the page stays in the mode it was in, with
  its form, its selection and its list, and sends nothing more.
\<close>

theorem handleUpdate_submit:
  assumes "selectedBook (view c) = Some sb"
    and "net (update_request sb (formData (view c))) (world c) = (r, w1)"
  shows "update_request sb (formData (view c)) =
           \<lparr>url = Api_books_id (book_id sb), fetch_method = ''PUT'',
            json_payload = Some \<lparr>body_title = Some (form_title (formData (view c))),
                                 body_author = Some (form_author (formData (view c))),
                                 body_year = json_number (parseInt (form_year (formData (view c))))\<rparr>\<rparr>
       \<and> (\<forall>q. json_number (parseInt (form_year (formData (view c)))) = Some q \<longrightarrow> q \<in> \<int>)
       \<and> (went_through r \<longrightarrow>
            requests (handleUpdate net c)
              = requests c @ [update_request sb (formData (view c)), list_request]
            \<and> editMode (view (handleUpdate net c)) = False
            \<and> selectedBook (view (handleUpdate net c)) = None
            \<and> formData (view (handleUpdate net c)) = formData (view c)
            \<and> books (view (handleUpdate net c)) =
                (case fst (net list_request w1) of
                   None \<Rightarrow> books (view c)
                 | Some resp2 \<Rightarrow>
                     if ok resp2
                     then (case json resp2 of None \<Rightarrow> books (view c) | Some data \<Rightarrow> data)
                     else books (view c)))
       \<and> (\<not> went_through r \<longrightarrow>
            requests (handleUpdate net c) = requests c @ [update_request sb (formData (view c))]
            \<and> world (handleUpdate net c) = w1
            \<and> view (handleUpdate net c) = (view c)\<lparr>error := ''Error updating book''\<rparr>
            \<and> editMode (view (handleUpdate net c)) = editMode (view c)
            \<and> formData (view (handleUpdate net c)) = formData (view c))"
proof -
  have a: "update_request sb (formData (view c)) =
           \<lparr>url = Api_books_id (book_id sb), fetch_method = ''PUT'',
            json_payload = Some \<lparr>body_title = Some (form_title (formData (view c))),
                                 body_author = Some (form_author (formData (view c))),
                                 body_year = json_number (parseInt (form_year (formData (view c))))\<rparr>\<rparr>"
    by (simp add: update_request_def)
  have b: "q \<in> \<int>" if "json_number (parseInt (form_year (formData (view c)))) = Some q" for q
    using that parseInt_integer [of "form_year (formData (view c))" q]
    by (simp add: json_number_def split: jsnum.splits)
  have f: "fetch net (update_request sb (formData (view c))) c =
      (r, c\<lparr>world := w1, requests := requests c @ [update_request sb (formData (view c))]\<rparr>)"
    using assms(2) by (simp add: fetch_def)
  let ?c1 = "c\<lparr>world := w1, requests := requests c @ [update_request sb (formData (view c))]\<rparr>"
  have hs: "handleUpdate net c =
      fetchBooks net (?c1\<lparr>view := (view ?c1)\<lparr>editMode := False, selectedBook := None,
                                              error := []\<rparr>\<rparr>)"
    if "went_through r"
  proof -
    from that obtain resp where "r = Some resp" "ok resp"
      by (cases r) (simp_all add: went_through_def)
    then show ?thesis by (simp add: handleUpdate_def assms(1) f)
  qed
  have hn: "handleUpdate net c = setError ''Error updating book'' ?c1" if "\<not> went_through r"
  proof (cases r)
    case None
    then show ?thesis by (simp add: handleUpdate_def assms(1) f)
  next
    case (Some resp)
    with that have "\<not> ok resp" by (simp add: went_through_def)
    with Some show ?thesis by (simp add: handleUpdate_def assms(1) f)
  qed
  have s: "requests (handleUpdate net c)
              = requests c @ [update_request sb (formData (view c)), list_request]
            \<and> editMode (view (handleUpdate net c)) = False
            \<and> selectedBook (view (handleUpdate net c)) = None
            \<and> formData (view (handleUpdate net c)) = formData (view c)
            \<and> books (view (handleUpdate net c)) =
                (case fst (net list_request w1) of
                   None \<Rightarrow> books (view c)
                 | Some resp2 \<Rightarrow>
                     if ok resp2
                     then (case json resp2 of None \<Rightarrow> books (view c) | Some data \<Rightarrow> data)
                     else books (view c))"
    if "went_through r"
    by (simp add: hs [OF that] fetchBooks_effect cong: option.case_cong if_cong)
  have n: "requests (handleUpdate net c) = requests c @ [update_request sb (formData (view c))]
            \<and> world (handleUpdate net c) = w1
            \<and> view (handleUpdate net c) = (view c)\<lparr>error := ''Error updating book''\<rparr>
            \<and> editMode (view (handleUpdate net c)) = editMode (view c)
            \<and> formData (view (handleUpdate net c)) = formData (view c)"
    if "\<not> went_through r"
    by (simp add: hn [OF that] setError_def)
  from a b s n show ?thesis by blast
qed

theorem handleUpdate_submit_witness:
  "selectedBook (view (editing_orwell script_accepted)) = Some orwell
   \<and> requests (handleUpdate scripted (editing_orwell script_accepted)) =
       [\<lparr>url = Api_books_id 2, fetch_method = ''PUT'', json_payload = Some complete_body\<rparr>,
        list_request]
   \<and> editMode (view (handleUpdate scripted (editing_orwell script_accepted))) = False
   \<and> selectedBook (view (handleUpdate scripted (editing_orwell script_accepted))) = None
   \<and> books (view (handleUpdate scripted (editing_orwell script_accepted))) =
       [gatsby, orwell_updated, mockingbird]
   \<and> requests (handleUpdate scripted (editing_orwell script_refused)) =
       [\<lparr>url = Api_books_id 2, fetch_method = ''PUT'', json_payload = Some complete_body\<rparr>]
   \<and> view (handleUpdate scripted (editing_orwell script_refused)) =
       (view (editing_orwell script_refused))\<lparr>error := ''Error updating book''\<rparr>
   \<and> editMode (view (handleUpdate scripted (editing_orwell script_refused))) = True
   \<and> update_request orwell (formData (view (editing_year_2_53_1 script_refused))) =
       \<lparr>url = Api_books_id 2, fetch_method = ''PUT'',
        json_payload = Some \<lparr>body_title = Some ''1984'', body_author = Some ''George Orwell'',
                             body_year = Some 9007199254740992\<rparr>\<rparr>"
proof -
  let ?ca = "editing_orwell script_accepted"
  let ?cr = "editing_orwell script_refused"
  let ?rq = "\<lparr>url = Api_books_id 2, fetch_method = ''PUT'', json_payload = Some complete_body\<rparr>"
  have sa: "selectedBook (view ?ca) = Some orwell" and sr: "selectedBook (view ?cr) = Some orwell"
    by (simp_all add: editing_orwell_def)
  have ua: "update_request orwell (formData (view ?ca)) = ?rq"
    and ur: "update_request orwell (formData (view ?cr)) = ?rq"
    by (simp_all add: update_request_def editing_orwell_def orwell_def parseInt_2000
        json_number_def complete_body_def)
  have na: "scripted (update_request orwell (formData (view ?ca))) (world ?ca) =
      (Some \<lparr>ok = True, json = None\<rparr>,
       [Some \<lparr>ok = True, json = Some [gatsby, orwell_updated, mockingbird]\<rparr>])"
    by (simp add: scripted_def editing_orwell_def script_accepted_def)
  have nr: "scripted (update_request orwell (formData (view ?cr))) (world ?cr) =
      (Some \<lparr>ok = False, json = None\<rparr>, [])"
    by (simp add: scripted_def editing_orwell_def script_refused_def)
  have ga: "went_through (Some \<lparr>ok = True, json = None\<rparr>)"
    and gr: "\<not> went_through (Some \<lparr>ok = False, json = None\<rparr>)"
    by (simp_all add: went_through_def)
  note wa = handleUpdate_submit [where net = scripted, OF sa na]
  note wr = handleUpdate_submit [where net = scripted, OF sr nr]
  from wa ga have a: "requests (handleUpdate scripted ?ca)
              = requests ?ca @ [update_request orwell (formData (view ?ca)), list_request]
            \<and> editMode (view (handleUpdate scripted ?ca)) = False
            \<and> selectedBook (view (handleUpdate scripted ?ca)) = None
            \<and> books (view (handleUpdate scripted ?ca)) =
                (case fst (scripted list_request
                      [Some \<lparr>ok = True, json = Some [gatsby, orwell_updated, mockingbird]\<rparr>]) of
                   None \<Rightarrow> books (view ?ca)
                 | Some resp2 \<Rightarrow>
                     if ok resp2
                     then (case json resp2 of None \<Rightarrow> books (view ?ca) | Some data \<Rightarrow> data)
                     else books (view ?ca))"
    by blast
  have a': "requests (handleUpdate scripted ?ca) = [?rq, list_request]
            \<and> editMode (view (handleUpdate scripted ?ca)) = False
            \<and> selectedBook (view (handleUpdate scripted ?ca)) = None
            \<and> books (view (handleUpdate scripted ?ca)) = [gatsby, orwell_updated, mockingbird]"
    using a by (simp add: ua scripted_def) (simp add: editing_orwell_def)
  from wr gr have b: "requests (handleUpdate scripted ?cr)
              = requests ?cr @ [update_request orwell (formData (view ?cr))]
            \<and> view (handleUpdate scripted ?cr) = (view ?cr)\<lparr>error := ''Error updating book''\<rparr>
            \<and> editMode (view (handleUpdate scripted ?cr)) = editMode (view ?cr)"
    by blast
  have b': "requests (handleUpdate scripted ?cr) = [?rq]
            \<and> view (handleUpdate scripted ?cr) = (view ?cr)\<lparr>error := ''Error updating book''\<rparr>
            \<and> editMode (view (handleUpdate scripted ?cr)) = True"
    using b by (simp add: ur) (simp add: editing_orwell_def)
  let ?cb = "editing_year_2_53_1 script_refused"
  have sb: "selectedBook (view ?cb) = Some orwell"
    by (simp add: editing_year_2_53_1_def)
  have nb: "scripted (update_request orwell (formData (view ?cb))) (world ?cb) =
      (Some \<lparr>ok = False, json = None\<rparr>, [])"
    by (simp add: scripted_def editing_year_2_53_1_def script_refused_def)
  have c: "update_request orwell (formData (view ?cb)) =
       \<lparr>url = Api_books_id 2, fetch_method = ''PUT'',
        json_payload = Some \<lparr>body_title = Some ''1984'', body_author = Some ''George Orwell'',
                             body_year = Some 9007199254740992\<rparr>\<rparr>"
    using handleUpdate_submit [where net = scripted, OF sb nb, THEN conjunct1]
    by (simp add: editing_year_2_53_1_def orwell_def parseInt_2_53_1 json_number_def)
  from sa a' b' c show ?thesis by blast
qed

end
